theory Spec2Isabelle
  imports Complex_Main "HOL-Library.AList"
begin

section \<open>Data model of the turn and activity engine (logic.ts)\<close>

text \<open>
  Actors and dungeons are JavaScript objects that the engine mutates in place and looks
  up by identity (\<open>indexOf\<close>). They live in two stores inside the game state; an
  actor list holds references, not copies.
\<close>

type_synonym ref = nat
type_synonym dref = nat

record GoldRange =
  gold_min :: int
  gold_max :: int

record Actor =
  actor_id :: int
  playerId :: "string option"
  dungeonId :: int
  actor_x :: int
  actor_y :: int
  lx :: int
  ly :: int
  lt :: int
  good :: bool
  attack :: int
  modAttack :: int
  defense :: int
  modDefense :: int
  health :: int
  maxHealth :: int
  magic :: int
  maxMagic :: int
  moves :: int
  maxMoves :: int
  actions :: int
  facingRight :: bool
  sprite :: int
  goldOnKill :: "GoldRange option"

section \<open>Combat Resolver: rollCombat\<close>

text \<open>
  \<open>Math.random()\<close> is a stream of draws in \<open>[0, 1)\<close>; \<open>rollCombat\<close> reads it
  from position 0 on, one draw per loop iteration. Stats are integers, the optional
  multiplier is \<open>None\<close> when the argument is left out.
\<close>

definition manhattan :: "Actor \<Rightarrow> Actor \<Rightarrow> int" where
  "manhattan attacker target =
     \<bar>actor_x attacker - actor_x target\<bar> + \<bar>actor_y attacker - actor_y target\<bar>"

text \<open>Lines 289-298: the score that bounds the skull loop.\<close>

definition attackScore :: "Actor \<Rightarrow> Actor \<Rightarrow> int option \<Rightarrow> int" where
  "attackScore attacker target multiplier =
     (let atk = attack attacker + modAttack attacker in
      if manhattan attacker target = 1 then \<lceil>real_of_int atk / 2\<rceil>
      else (case multiplier of
              None \<Rightarrow> atk
            | Some m \<Rightarrow> if m \<noteq> 0 then atk * m else atk))"

text \<open>
  One \<open>for\<close> loop of lines 300-312: \<open>n\<close> iterations left, the next draw at \<open>pos\<close>,
  the counter in \<open>acc\<close>; a draw \<open>r\<close> counts when \<open>r * 6 < thr\<close>.
\<close>

fun rollLoop :: "(nat \<Rightarrow> real) \<Rightarrow> real \<Rightarrow> nat \<Rightarrow> nat \<Rightarrow> int \<Rightarrow> int" where
  "rollLoop rnd thr pos 0 acc = acc"
| "rollLoop rnd thr pos (Suc n) acc =
     rollLoop rnd thr (Suc pos) n (if rnd pos * 6 < thr then acc + 1 else acc)"

definition rollCombat :: "(nat \<Rightarrow> real) \<Rightarrow> Actor \<Rightarrow> Actor option \<Rightarrow> int option \<Rightarrow> int" where
  "rollCombat rnd attacker target multiplier =
     (case target of
        None \<Rightarrow> 0
      | Some t \<Rightarrow>
          (let atk = attackScore attacker t multiplier;
               skulls = rollLoop rnd 3 0 (nat atk) 0;
               shields = rollLoop rnd (if good t then 2 else 1) (nat atk)
                           (nat (defense t + modDefense t)) 0
           in max 0 (skulls - shields)))"

text \<open>Scenario inputs used to run the definitions.\<close>

definition actor0 :: Actor where
  "actor0 = \<lparr>actor_id = 0, playerId = None, dungeonId = 1, actor_x = 0, actor_y = 0,
     lx = 0, ly = 0, lt = 0, good = False, attack = 0, modAttack = 0, defense = 0,
     modDefense = 0, health = 1, maxHealth = 1, magic = 0, maxMagic = 0, moves = 0,
     maxMoves = 0, actions = 0, facingRight = False, sprite = 0, goldOnKill = None\<rparr>"

definition heroA :: Actor where
  "heroA = actor0\<lparr>actor_id := 7, playerId := Some ''p1'', good := True, attack := 4,
     defense := 2, health := 5, maxHealth := 5, magic := 3, maxMagic := 4, moves := 3,
     maxMoves := 3, actions := 1, actor_x := 2, actor_y := 2\<rparr>"

definition monsterB :: Actor where
  "monsterB = actor0\<lparr>actor_id := 9, attack := 2, defense := 2, health := 2, maxHealth := 2,
     moves := 2, maxMoves := 2, actions := 1, actor_x := 2, actor_y := 3,
     goldOnKill := Some \<lparr>gold_min = 5, gold_max = 10\<rparr>\<rparr>"

section \<open>JavaScript array operations used by the engine\<close>

text \<open>\<open>Array.prototype.indexOf\<close>: the first index of the element, or -1.\<close>

fun indexOf :: "'a list \<Rightarrow> 'a \<Rightarrow> int" where
  "indexOf [] v = -1"
| "indexOf (x # xs) v = (if x = v then 0 else (let i = indexOf xs v in if i < 0 then -1 else i + 1))"

text \<open>
  \<open>Array.prototype.splice(start, deleteCount, ...items)\<close>: a negative start counts
  from the end (so \<open>splice(-1, 1)\<close> removes the last element), a start beyond the end
  is the end.
\<close>

definition splice :: "int \<Rightarrow> int \<Rightarrow> 'a list \<Rightarrow> 'a list \<Rightarrow> 'a list" where
  "splice start deleteCount ins xs =
     (let len = int (length xs);
          s = (if start < 0 then max 0 (len + start) else min start len);
          d = min (max deleteCount 0) (len - s)
      in take (nat s) xs @ ins @ drop (nat (s + d)) xs)"

text \<open>\<open>Array.prototype.find\<close> is \<open>List.find\<close>; \<open>includes\<close> is membership.\<close>

section \<open>Game state\<close>

datatype GameEventType =
  EvDamage | EvOpen | EvStep | EvDied | EvMelee | EvShoot | EvMagic | EvHeal
  | EvTurnChange | EvStairs | EvGoldLoot | EvItemLoot | EvChestOpen | EvUseItem

datatype GameMoveType = MvMove | MvAttack | MvOpen | MvHeal | MvShoot | MvMagic | MvChest

datatype error = TypeError

type_synonym ItemType = string
type_synonym PlayerClass = string

record Item =
  item_id :: int
  item_type :: ItemType

record GameEvent =
  ev_type :: GameEventType
  ev_x :: int
  ev_y :: int
  ev_value :: int
  ev_actorId :: int
  ev_delay :: int
  ev_item :: "ItemType option"

record Activity =
  act_dungeonId :: int
  act_actorId :: int
  act_startTime :: int
  act_tx :: int
  act_ty :: int

record GameMove =
  mv_x :: int
  mv_y :: int
  mv_sx :: int
  mv_sy :: int
  mv_type :: GameMoveType
  mv_depth :: int

record SaveGame =
  savedAt :: int
  save_items :: "Item list"
  save_level :: int
  save_desc :: string
  save_gold :: int

record PlayerInfo =
  pi_dungeonId :: int
  pi_type :: PlayerClass
  pi_actorId :: int
  pi_name :: string

record Room =
  room_x :: int
  room_y :: int
  room_width :: int
  room_height :: int
  room_start :: bool
  stairsDown :: bool
  discovered :: bool

record Door =
  door_x :: int
  door_y :: int
  door_open :: bool

record Chest =
  chest_x :: int
  chest_y :: int
  chest_open :: bool
  chest_item :: ItemType

record Dungeon =
  dg_id :: int
  dg_level :: int
  dg_rooms :: "Room list"
  dg_doors :: "Door list"
  dg_chests :: "Chest list"
  dg_actors :: "ref list"

text \<open>
  \<open>playerInfo\<close> is a JavaScript object used as a dictionary: an association list in
  insertion order (\<open>Object.keys\<close>, \<open>Object.values\<close>). \<open>persisted\<close> is optional, has
  an entry per player at most, and an entry may lack its \<open>saves\<close>. The last five fields
  are the model's: the two object stores with their allocation counters, and whether
  \<open>Rune.gameOver()\<close> has been called.
\<close>

record GameState =
  persisted :: "(string \<rightharpoonup> SaveGame list option) option"
  gold :: int
  items :: "Item list"
  nextId :: int
  playerOrder :: "string list"
  deadHeroes :: "ref list"
  playerInfo :: "(string \<times> PlayerInfo) list"
  whoseTurn :: string
  dungeons :: "dref list"
  possibleMoves :: "GameMove list"
  currentActivity :: "Activity option"
  lastUpdate :: int
  events :: "GameEvent list"
  evilTurnMax :: int
  whoseSave :: "string option"
  saveDesc :: "string option"
  time :: int
  saveLevel :: int
  actorStore :: "ref \<Rightarrow> Actor"
  dungeonStore :: "dref \<Rightarrow> Dungeon"
  nextRef :: ref
  nextDref :: dref
  gameOver :: bool

text \<open>
  What a generated dungeon brings: the dungeon (its actor list is filled in by the
  model with fresh references), its monsters, and the id counter after generation.
\<close>

record Generated =
  gen_dungeon :: Dungeon
  gen_actors :: "Actor list"
  gen_nextId :: int

text \<open>
  The collaborators of logic.ts that are not part of it (dungeon.ts, monsters.ts,
  items.ts, player.ts, actor.ts, the Rune runtime) and the random draws, as parameters.
  \<open>now\<close> is \<open>Rune.gameTime()\<close>. Each draw is a value of \<open>Math.random()\<close>, in
  \<open>[0, 1)\<close>: \<open>rollDraws\<close> are the draws read by one call of \<open>rollCombat\<close>,
  \<open>goldDraw\<close> the draw of \<open>kill\<close>, \<open>startDraw\<close> the draw that picks a start cell.
  The types say what a collaborator may touch: \<open>calcMoves\<close> computes the list that
  becomes \<open>possibleMoves\<close>; \<open>createActor\<close>, \<open>createItem\<close> and
  \<open>createMonsterItemLoot\<close> return what they create and the id counter after the call;
  \<open>addItemToInventory\<close> maps the inventory to the new inventory; the others only
  read. \<open>blocked\<close> is called with no actor (\<open>undefined\<close>) throughout logic.ts, and
  \<open>distanceToHero\<close> takes the cell of the actor or move it is given.
\<close>

record Env =
  now :: int
  rollDraws :: "nat \<Rightarrow> real"
  goldDraw :: real
  startDraw :: real
  findNextStep :: "GameState \<Rightarrow> ref \<Rightarrow> int \<Rightarrow> int \<Rightarrow> GameMove option"
  calcMoves :: "GameState \<Rightarrow> ref \<Rightarrow> GameMove list"
  blocked :: "Dungeon \<Rightarrow> int \<Rightarrow> int \<Rightarrow> bool"
  roomContains :: "Room \<Rightarrow> int \<Rightarrow> int \<Rightarrow> bool"
  roomTouches :: "Room \<Rightarrow> int \<Rightarrow> int \<Rightarrow> bool"
  generateDungeon :: "GameState \<Rightarrow> int \<Rightarrow> Generated"
  createActor :: "string \<Rightarrow> GameState \<Rightarrow> PlayerClass \<Rightarrow> int \<Rightarrow> int \<Rightarrow> int \<Rightarrow> Actor \<times> int"
  createItem :: "GameState \<Rightarrow> ItemType \<Rightarrow> Item \<times> int"
  createMonsterItemLoot :: "GameState \<Rightarrow> ref \<Rightarrow> (Item \<times> int) option"
  addItemToInventory :: "Item list \<Rightarrow> Item \<Rightarrow> Item list"
  findActiveHero :: "GameState \<Rightarrow> bool"
  findActiveMonsters :: "GameState \<Rightarrow> ref list"
  standingNextToHero :: "GameState \<Rightarrow> ref \<Rightarrow> bool"
  distanceToHero :: "GameState \<Rightarrow> int \<Rightarrow> int \<Rightarrow> int \<Rightarrow> int"
  getAdjacentHero :: "GameState \<Rightarrow> int \<Rightarrow> ref \<Rightarrow> ref option"

section \<open>Store access and the lookups of dungeon.ts\<close>

definition updActor :: "ref \<Rightarrow> (Actor \<Rightarrow> Actor) \<Rightarrow> GameState \<Rightarrow> GameState" where
  "updActor r f game = game\<lparr>actorStore := (actorStore game)(r := f (actorStore game r))\<rparr>"

definition updDungeon :: "dref \<Rightarrow> (Dungeon \<Rightarrow> Dungeon) \<Rightarrow> GameState \<Rightarrow> GameState" where
  "updDungeon d f game = game\<lparr>dungeonStore := (dungeonStore game)(d := f (dungeonStore game d))\<rparr>"

fun findIndex :: "('a \<Rightarrow> bool) \<Rightarrow> 'a list \<Rightarrow> nat option" where
  "findIndex P [] = None"
| "findIndex P (x # xs) = (if P x then Some 0 else map_option Suc (findIndex P xs))"

text \<open>
  Modelled from the spec: \<open>getDungeonById\<close>, \<open>getActorById\<close>, \<open>getActorAt\<close>,
  \<open>getRoomAt\<close>, \<open>getAllRoomsAt\<close> and \<open>getChestAt\<close> of dungeon.ts are missing from the
  sources; section 6 of the specification lists them as the occupancy queries
  actor-at-cell, room-at-cell, rooms-at-cell and chest-at-cell, and the dungeon is
  "referenced by id". Each is the first match in the list it searches. Which cells a room
  covers (\<open>roomContains\<close>) and which rooms share a door cell (\<open>roomTouches\<close>) stay
  parameters. A room is returned as its index in the dungeon's room list.
\<close>

definition getDungeonById :: "GameState \<Rightarrow> int \<Rightarrow> dref option" where
  "getDungeonById game i = find (\<lambda>d. dg_id (dungeonStore game d) = i) (dungeons game)"

definition getActorById :: "GameState \<Rightarrow> int \<Rightarrow> int \<Rightarrow> ref option" where
  "getActorById game dungeonIdent actorIdent =
     (case getDungeonById game dungeonIdent of
        None \<Rightarrow> None
      | Some d \<Rightarrow> find (\<lambda>r. actor_id (actorStore game r) = actorIdent)
                       (dg_actors (dungeonStore game d)))"

definition getActorAt :: "GameState \<Rightarrow> dref \<Rightarrow> int \<Rightarrow> int \<Rightarrow> ref option" where
  "getActorAt game d px py =
     find (\<lambda>r. actor_x (actorStore game r) = px \<and> actor_y (actorStore game r) = py)
          (dg_actors (dungeonStore game d))"

definition getRoomAt :: "(Room \<Rightarrow> int \<Rightarrow> int \<Rightarrow> bool) \<Rightarrow> Dungeon \<Rightarrow> int \<Rightarrow> int \<Rightarrow> nat option" where
  "getRoomAt contains dungeon px py = findIndex (\<lambda>r. contains r px py) (dg_rooms dungeon)"

definition getChestAt :: "Dungeon \<Rightarrow> int \<Rightarrow> int \<Rightarrow> nat option" where
  "getChestAt dungeon px py = findIndex (\<lambda>c. chest_x c = px \<and> chest_y c = py) (dg_chests dungeon)"

section \<open>Event Emitter: addGameEvent\<close>

definition addGameEvent ::
  "GameState \<Rightarrow> int \<Rightarrow> GameEventType \<Rightarrow> int \<Rightarrow> int \<Rightarrow> int \<Rightarrow> int \<Rightarrow> ItemType option \<Rightarrow> GameState" where
  "addGameEvent game actorIdent event delay px py val item =
     game\<lparr>events := events game @
       [\<lparr>ev_type = event, ev_x = px, ev_y = py, ev_value = val, ev_actorId = actorIdent,
         ev_delay = delay, ev_item = item\<rparr>]\<rparr>"

section \<open>Placing an actor: the start-cell scan of joinGame and startDungeon\<close>

text \<open>
  Lines 156-167 and 323-332 are the same double loop over the interior cells of a room,
  skipping the cell \<open>(width - 2, 1)\<close>; occupancy and blocking are asked of dungeon \<open>d\<close>.
\<close>

definition possibleStarts :: "Env \<Rightarrow> GameState \<Rightarrow> dref \<Rightarrow> Room \<Rightarrow> (int \<times> int) list" where
  "possibleStarts env game d room =
     concat (map (\<lambda>cx. concat (map (\<lambda>cy.
        if cx = room_width room - 2 \<and> cy = 1 then []
        else if getActorAt game d (room_x room + cx) (room_y room + cy) = None \<and>
                \<not> blocked env (dungeonStore game d) (room_x room + cx) (room_y room + cy)
             then [(cx + room_x room, cy + room_y room)]
             else [])
        [1..room_height room - 2])) [1..room_width room - 2])"

text \<open>
  \<open>xs[Math.floor(Math.random() * xs.length)]\<close>; \<open>None\<close> is \<open>undefined\<close>, which a
  draw in \<open>[0, 1)\<close> never gives on a non-empty array.
\<close>

definition pickRandom :: "real \<Rightarrow> 'a list \<Rightarrow> 'a option" where
  "pickRandom r xs =
     (let i = \<lfloor>r * real (length xs)\<rfloor>
      in if 0 \<le> i \<and> i < int (length xs) then Some (xs ! nat i) else None)"

definition pushActor :: "dref \<Rightarrow> Actor \<Rightarrow> GameState \<Rightarrow> GameState" where
  "pushActor d a game =
     updDungeon d (\<lambda>dg. dg\<lparr>dg_actors := dg_actors dg @ [nextRef game]\<rparr>)
       (game\<lparr>actorStore := (actorStore game)(nextRef game := a), nextRef := Suc (nextRef game)\<rparr>)"

definition allHeroes :: "GameState \<Rightarrow> ref list" where
  "allHeroes game =
     concat (map (\<lambda>d. filter (\<lambda>r. good (actorStore game r)) (dg_actors (dungeonStore game d)))
                 (dungeons game))"

section \<open>joinGame and the commands on the turn order\<close>

definition heroRooms :: "Env \<Rightarrow> GameState \<Rightarrow> ref list \<Rightarrow> (dref \<times> nat) list" where
  "heroRooms env game heroes =
     fold (\<lambda>hero startRooms.
             (case getDungeonById game (dungeonId (actorStore game hero)) of
                None \<Rightarrow> startRooms
              | Some hdg \<Rightarrow>
                  (case getRoomAt (roomContains env) (dungeonStore game hdg)
                          (actor_x (actorStore game hero)) (actor_y (actorStore game hero)) of
                     None \<Rightarrow> startRooms
                   | Some i \<Rightarrow> if (hdg, i) \<in> set startRooms then startRooms
                               else startRooms @ [(hdg, i)])))
          heroes []"

text \<open>Lines 126-184: find a start cell and create the hero there.\<close>

definition placeHero :: "Env \<Rightarrow> GameState \<Rightarrow> dref \<Rightarrow> string \<Rightarrow> PlayerClass \<Rightarrow> string \<Rightarrow> error + GameState" where
  "placeHero env game d playerIdent type name =
     (case findIndex room_start (dg_rooms (dungeonStore game d)) of
        None \<Rightarrow> Inr game
      | Some mainStartRoom \<Rightarrow>
          (let heroes = allHeroes game;
               startRooms = (if length heroes = 0 then [(d, mainStartRoom)]
                             else heroRooms env game heroes);
               starts = concat (map (\<lambda>(rd, i). possibleStarts env game d
                                         (dg_rooms (dungeonStore game rd) ! i)) startRooms)
           in if length starts > 0 then
                (case pickRandom (startDraw env) starts of
                   None \<Rightarrow> Inl TypeError
                 | Some (sx, sy) \<Rightarrow>
                     (let (actor, nid) = createActor env playerIdent game type
                                           (dg_id (dungeonStore game d)) sx sy;
                          game1 = game\<lparr>nextId := nid,
                                    playerInfo := AList.update playerIdent
                                      \<lparr>pi_dungeonId = dg_id (dungeonStore game d), pi_type = type,
                                        pi_actorId = actor_id actor, pi_name = name\<rparr>
                                      (playerInfo game)\<rparr>
                      in Inr (pushActor d actor game1)))
              else Inr game))"

definition joinGame :: "Env \<Rightarrow> GameState \<Rightarrow> string \<Rightarrow> PlayerClass \<Rightarrow> string \<Rightarrow> error + GameState" where
  "joinGame env game playerIdent type name =
     (if dungeons game = [] then Inl TypeError
      else
        (let d = last (dungeons game) in
         case placeHero env game d playerIdent type name of
           Inl e \<Rightarrow> Inl e
         | Inr game1 \<Rightarrow>
             (let game2 = (if playerIdent \<in> set (playerOrder game1) then game1
                           else game1\<lparr>playerOrder :=
                                  splice (int (length (playerOrder game1)) - 1) 0 [playerIdent]
                                         (playerOrder game1)\<rparr>)
              in Inr (case map_of (playerInfo game2) (whoseTurn game2) of
                        None \<Rightarrow> game2
                      | Some whoseMove \<Rightarrow>
                          if pi_actorId whoseMove \<noteq> 0 then
                            (case getActorById game2 (dg_id (dungeonStore game2 d))
                                    (pi_actorId whoseMove) of
                               None \<Rightarrow> game2
                             | Some actor \<Rightarrow> game2\<lparr>possibleMoves := calcMoves env game2 actor\<rparr>)
                          else game2))))"

text \<open>The action \<open>clearType\<close> (lines 765-768), called by player \<open>playerIdent\<close>.\<close>

definition clearType :: "GameState \<Rightarrow> string \<Rightarrow> GameState" where
  "clearType game playerIdent =
     game\<lparr>playerOrder := splice (indexOf (playerOrder game) playerIdent) 1 [] (playerOrder game),
          playerInfo := AList.delete playerIdent (playerInfo game)\<rparr>"

section \<open>saveGame\<close>

fun joinComma :: "string list \<Rightarrow> string" where
  "joinComma [] = []"
| "joinComma [n] = n"
| "joinComma (n # ns) = n @ '','' @ joinComma ns"

definition saveDescOf :: "GameState \<Rightarrow> string" where
  "saveDescOf game = joinComma (map (\<lambda>(k, info). pi_name info) (playerInfo game))"

text \<open>A string is truthy when it is present and not empty.\<close>

definition saveGame :: "Env \<Rightarrow> string \<Rightarrow> int \<Rightarrow> GameState \<Rightarrow> GameState" where
  "saveGame env playerIdent dungeonIndex game =
     (if (case whoseSave game of None \<Rightarrow> False | Some w \<Rightarrow> w \<noteq> [] \<and> w \<noteq> playerIdent) then game
      else
        (case persisted game of
           None \<Rightarrow> game
         | Some p \<Rightarrow>
             (let saveGames = (case p playerIdent of Some (Some sv) \<Rightarrow> sv | _ \<Rightarrow> []);
                  first = (case saveGames of
                             [] \<Rightarrow> \<lparr>savedAt = time game + now env, save_items = [], save_level = 0,
                                    save_desc = saveDescOf game, save_gold = 0\<rparr>
                           | sv # _ \<Rightarrow> sv);
                  saved = first\<lparr>save_level := dungeonIndex, save_gold := gold game,
                                save_items := items game, save_desc := saveDescOf game\<rparr>
              in game\<lparr>persisted := Some (p(playerIdent \<mapsto> Some (saved # tl saveGames)))\<rparr>)))"

section \<open>Turn Manager: nextTurn\<close>

definition resetEvil :: "GameState \<Rightarrow> GameState" where
  "resetEvil game =
     fold (\<lambda>d g. fold (\<lambda>r g1. if \<not> good (actorStore g1 r)
                               then updActor r (\<lambda>a. a\<lparr>moves := maxMoves a, actions := 1\<rparr>) g1
                               else g1)
                      (dg_actors (dungeonStore g d)) g)
          (dungeons game) game"

text \<open>
  \<open>nextHolder\<close> is the entry of lines 235-242, read only when the turn order is not
  empty. One pass through the body of \<open>nextTurn\<close> (lines 234-271): \<open>Inl\<close> is the state handed
  to the recursive call of line 249, \<open>Inr\<close> the outcome when the function returns.
  \<open>game.playerInfo[game.whoseTurn].dungeonId\<close> throws a TypeError when the new turn
  holder has no player record; with an empty turn order the new holder is
  \<open>undefined\<close>, which has none.
\<close>

definition nextHolder :: "GameState \<Rightarrow> string" where
  "nextHolder game =
     (let index = indexOf (playerOrder game) (whoseTurn game);
          index1 = (if index \<ge> int (length (playerOrder game)) - 1 then 0 else index + 1)
      in playerOrder game ! nat index1)"

definition nextTurnBody :: "Env \<Rightarrow> GameState \<Rightarrow> GameState + (error + GameState)" where
  "nextTurnBody env game =
     (if playerOrder game = [] then Inr (Inl TypeError)
      else
           (let game1 = game\<lparr>whoseTurn := nextHolder game\<rparr> in
            if whoseTurn game1 \<noteq> ''evil'' then
              (case map_of (playerInfo game1) (whoseTurn game1) of
                 None \<Rightarrow> Inr (Inl TypeError)
               | Some info \<Rightarrow>
                   (case getActorById game1 (pi_dungeonId info) (pi_actorId info) of
                      None \<Rightarrow> Inr (Inr (addGameEvent game1 0 EvTurnChange 0 0 0 0 None))
                    | Some newActor \<Rightarrow>
                        if health (actorStore game1 newActor) \<le> 0 then Inl game1
                        else
                          (let game2 = updActor newActor
                                         (\<lambda>a. a\<lparr>moves := maxMoves a, actions := 1\<rparr>) game1;
                               game3 = (if magic (actorStore game2 newActor)
                                           < maxMagic (actorStore game2 newActor)
                                        then updActor newActor (\<lambda>a. a\<lparr>magic := magic a + 1\<rparr>) game2
                                        else game2);
                               game4 = game3\<lparr>possibleMoves := calcMoves env game3 newActor\<rparr>
                           in Inr (Inr (addGameEvent game4 0 EvTurnChange 0 0 0 0 None)))))
            else
              (let game2 = resetEvil (game1\<lparr>evilTurnMax := 100\<rparr>)
               in Inr (Inr (addGameEvent game2 0 EvTurnChange 0 0 0 0 None)))))"

text \<open>The recursion need not end: \<open>None\<close> is a call that never returns.\<close>

partial_function (option) nextTurn :: "Env \<Rightarrow> GameState \<Rightarrow> (error + GameState) option" where
  "nextTurn env game =
     (case nextTurnBody env game of
        Inl game1 \<Rightarrow> nextTurn env game1
      | Inr outcome \<Rightarrow> Some outcome)"

section \<open>Death and Loot Handler: kill\<close>

text \<open>Lines 371-373: zero the health, splice the actor list, emit \<open>died\<close>.\<close>

definition killRemove :: "GameState \<Rightarrow> dref \<Rightarrow> ref \<Rightarrow> int \<Rightarrow> GameState" where
  "killRemove game d target extraDelay =
     (let game1 = updActor target (\<lambda>a. a\<lparr>health := 0\<rparr>) game;
          game2 = updDungeon d (\<lambda>dg. dg\<lparr>dg_actors :=
                      splice (indexOf (dg_actors dg) target) 1 [] (dg_actors dg)\<rparr>) game1;
          t = actorStore game2 target
      in addGameEvent game2 (-1) EvDied (400 + extraDelay) (actor_x t) (actor_y t) (sprite t) None)"

text \<open>
  \<open>lootGold\<close> of line 388 for a draw \<open>r\<close>:
  \<open>Math.floor(r * (max - min)) + min\<close>.
\<close>

definition lootGold :: "real \<Rightarrow> GoldRange \<Rightarrow> int" where
  "lootGold r gr = \<lfloor>r * real_of_int (gold_max gr - gold_min gr)\<rfloor> + gold_min gr"

definition kill :: "Env \<Rightarrow> GameState \<Rightarrow> dref \<Rightarrow> ref \<Rightarrow> int \<Rightarrow> GameState" where
  "kill env game d target extraDelay =
     (let game3 = killRemove game d target extraDelay;
          t = actorStore game3 target
      in if good t then
           (let game4 = game3\<lparr>deadHeroes := deadHeroes game3 @ [target]\<rparr>
            in if \<not> findActiveHero env game4 then game4\<lparr>gameOver := True\<rparr> else game4)
         else
           (case createMonsterItemLoot env game3 target of
              Some (item, nid) \<Rightarrow>
                (let game4 = game3\<lparr>nextId := nid,
                                   items := addItemToInventory env (items game3) item\<rparr>
                 in addGameEvent game4 (-1) EvItemLoot (400 + extraDelay) (actor_x t) (actor_y t) 0
                      (Some (item_type item)))
            | None \<Rightarrow>
                (case goldOnKill t of
                   Some gr \<Rightarrow>
                     (let game4 = game3\<lparr>gold := gold game3 + lootGold (goldDraw env) gr\<rparr>
                      in addGameEvent game4 (-1) EvGoldLoot (400 + extraDelay) (actor_x t)
                           (actor_y t) (lootGold (goldDraw env) gr) None)
                 | None \<Rightarrow> game3)))"

section \<open>startDungeon and the descent of lines 545-569\<close>

text \<open>
  Modelled from the spec: \<open>copyActor\<close> of actor.ts is missing from the sources; it
  returns a copy of the actor, here the same record at a fresh reference.
\<close>

definition startDungeon :: "Env \<Rightarrow> GameState \<Rightarrow> ref \<Rightarrow> dref \<Rightarrow> dref \<Rightarrow> error + (GameState \<times> ref)" where
  "startDungeon env game actor nextDungeon oldDungeon =
     (case find room_start (dg_rooms (dungeonStore game nextDungeon)) of
        None \<Rightarrow> Inr (game, actor)
      | Some startRoom \<Rightarrow>
          (let starts = possibleStarts env game nextDungeon startRoom in
           if length starts > 0 then
             (case pickRandom (startDraw env) starts of
                None \<Rightarrow> Inl TypeError
              | Some (sx, sy) \<Rightarrow>
                  (let a = actorStore game actor;
                       game1 = updDungeon oldDungeon (\<lambda>dg. dg\<lparr>dg_actors :=
                                  splice (indexOf (dg_actors dg) actor) 1 [] (dg_actors dg)\<rparr>) game;
                       newActor = nextRef game1;
                       nid = dg_id (dungeonStore game1 nextDungeon);
                       game2 = pushActor nextDungeon
                                 (a\<lparr>dungeonId := nid, actor_x := sx, actor_y := sy, lx := sx,
                                    ly := sy, lt := 0\<rparr>) game1;
                       game3 = game2\<lparr>playerInfo :=
                                 map (\<lambda>(k, info). (k, if pi_actorId info = actor_id a
                                                        then info\<lparr>pi_dungeonId := nid\<rparr> else info))
                                     (playerInfo game2)\<rparr>;
                       game4 = addGameEvent game3 (actor_id a) EvStairs 0 (actor_x a) (actor_y a)
                                 (dg_id (dungeonStore game3 oldDungeon)) None
                   in Inr (game4, newActor)))
           else Inr (game, actor)))"

text \<open>\<open>game.dungeons.push(generateDungeon(game, level))\<close>.\<close>

definition pushDungeon :: "Generated \<Rightarrow> GameState \<Rightarrow> GameState" where
  "pushDungeon gen game =
     (let n = length (gen_actors gen);
          refs = [nextRef game ..< nextRef game + n]
      in game\<lparr>nextId := gen_nextId gen,
              actorStore := (\<lambda>r. if nextRef game \<le> r \<and> r < nextRef game + n
                                 then gen_actors gen ! (r - nextRef game)
                                 else actorStore game r),
              nextRef := nextRef game + n,
              dungeonStore := (dungeonStore game)(nextDref game := (gen_dungeon gen)\<lparr>dg_actors := refs\<rparr>),
              nextDref := Suc (nextDref game),
              dungeons := dungeons game @ [nextDref game]\<rparr>)"

definition findLevel :: "GameState \<Rightarrow> int \<Rightarrow> dref option" where
  "findLevel game level = find (\<lambda>d. dg_level (dungeonStore game d) = level) (dungeons game)"

text \<open>
  Lines 550-561: generate the next dungeon when no dungeon of level \<open>dungeonIndex + 1\<close>
  exists, then save for the actor's player.
\<close>

definition ensureNextLevel :: "Env \<Rightarrow> dref \<Rightarrow> ref \<Rightarrow> GameState \<Rightarrow> GameState" where
  "ensureNextLevel env d actor game =
     (let dungeonIndex = dg_level (dungeonStore game d) + 1;
          game1 = (if findLevel game (dungeonIndex + 1) = None
                   then pushDungeon (generateDungeon env game (dungeonIndex + 1)) game
                   else game)
      in case playerId (actorStore game actor) of
           None \<Rightarrow> game1
         | Some pid \<Rightarrow> if pid \<noteq> [] then saveGame env pid dungeonIndex game1 else game1)"

definition descend :: "Env \<Rightarrow> dref \<Rightarrow> ref \<Rightarrow> GameState \<Rightarrow> error + (GameState \<times> ref)" where
  "descend env d actor game =
     (let dungeon = dungeonStore game d; a = actorStore game actor in
      case getRoomAt (roomContains env) dungeon (actor_x a) (actor_y a) of
        None \<Rightarrow> Inr (game, actor)
      | Some i \<Rightarrow>
          (let room = dg_rooms dungeon ! i in
           if good a \<and> stairsDown room then
             (let sx = room_x room + room_width room div 2;
                  sy = room_y room + room_height room div 2
              in if sx = actor_x a \<and> sy = actor_y a then
                   (let dungeonIndex = dg_level dungeon + 1;
                        game2 = ensureNextLevel env d actor game
                    in case findLevel game2 (dungeonIndex + 1) of
                         None \<Rightarrow> Inr (game2, actor)
                       | Some nextDungeon \<Rightarrow> startDungeon env game2 actor nextDungeon d)
                 else Inr (game, actor))
           else Inr (game, actor)))"

section \<open>Activity Executor: applyCurrentActivity\<close>

text \<open>
  Each block \<open>if (nextStep && nextStep.type === ...)\<close> of lines 413-538 is one function
  with its guard; they run in the order of the source. \<open>st\<close> is the step found, \<open>d\<close> the
  activity's dungeon, \<open>actor\<close> the acting actor.
\<close>

definition stepMove :: "Env \<Rightarrow> GameMove \<Rightarrow> ref \<Rightarrow> GameState \<Rightarrow> GameState" where
  "stepMove env st actor game =
     (if mv_type st = MvMove then
        (let game1 = updActor actor
                       (\<lambda>a. a\<lparr>lx := actor_x a, ly := actor_y a, lt := now env,
                              actor_x := mv_x st, actor_y := mv_y st, moves := moves a - 1\<rparr>) game;
             game2 = addGameEvent game1 (actor_id (actorStore game1 actor)) EvStep 0 0 0 0 None;
             game3 = (if actor_x (actorStore game2 actor) > lx (actorStore game2 actor)
                      then updActor actor (\<lambda>a. a\<lparr>facingRight := True\<rparr>) game2 else game2)
         in if actor_x (actorStore game3 actor) < lx (actorStore game3 actor)
            then updActor actor (\<lambda>a. a\<lparr>facingRight := False\<rparr>) game3 else game3)
      else game)"

definition stepOpen :: "Env \<Rightarrow> GameMove \<Rightarrow> dref \<Rightarrow> ref \<Rightarrow> GameState \<Rightarrow> GameState" where
  "stepOpen env st d actor game =
     (if mv_type st = MvOpen then
        (let game1 = updDungeon d
                       (\<lambda>dg. dg\<lparr>dg_doors := map (\<lambda>dr. if door_x dr = mv_x st \<and> door_y dr = mv_y st
                                                      then dr\<lparr>door_open := True\<rparr> else dr)
                                                (dg_doors dg)\<rparr>) game;
             game2 = updDungeon d
                       (\<lambda>dg. dg\<lparr>dg_rooms := map (\<lambda>r. if roomTouches env r (mv_x st) (mv_y st)
                                                     then r\<lparr>discovered := True\<rparr> else r)
                                                (dg_rooms dg)\<rparr>) game1
         in addGameEvent game2 (actor_id (actorStore game2 actor)) EvOpen 0 0 0 0 None)
      else game)"

definition stepChest :: "Env \<Rightarrow> GameMove \<Rightarrow> dref \<Rightarrow> ref \<Rightarrow> GameState \<Rightarrow> GameState" where
  "stepChest env st d actor game =
     (if mv_type st = MvChest then
        (case getChestAt (dungeonStore game d) (mv_x st) (mv_y st) of
           None \<Rightarrow> game
         | Some i \<Rightarrow>
             (let game1 = updDungeon d
                            (\<lambda>dg. dg\<lparr>dg_chests := (dg_chests dg)
                                       [i := (dg_chests dg ! i)\<lparr>chest_open := True\<rparr>]\<rparr>) game;
                  (item, nid) = createItem env game1 (chest_item (dg_chests (dungeonStore game1 d) ! i));
                  game2 = game1\<lparr>nextId := nid, items := addItemToInventory env (items game1) item\<rparr>;
                  game3 = addGameEvent game2 (actor_id (actorStore game2 actor)) EvChestOpen 0 0 0 0 None
              in addGameEvent game3 (actor_id (actorStore game3 actor)) EvItemLoot 0
                   (mv_x st) (mv_y st) 0 (Some (item_type item))))
      else game)"

text \<open>
  The combat part shared by shoot (lines 452-462), magic (476-487) and attack (521-531):
  they differ in the multiplier, in the first event (\<open>melee\<close> carries no cell) and in the
  two delays.
\<close>

definition strike ::
  "Env \<Rightarrow> GameMove \<Rightarrow> dref \<Rightarrow> ref \<Rightarrow> int option \<Rightarrow> GameEventType \<Rightarrow> bool \<Rightarrow> int \<Rightarrow> int
     \<Rightarrow> GameState \<Rightarrow> GameState" where
  "strike env st d actor multiplier ev withCell damageDelay killDelay game =
     (case getActorAt game d (mv_x st) (mv_y st) of
        None \<Rightarrow> game
      | Some target \<Rightarrow>
          (let damage = rollCombat (rollDraws env) (actorStore game actor)
                          (Some (actorStore game target)) multiplier;
               game1 = addGameEvent game (actor_id (actorStore game actor)) ev 0
                         (if withCell then mv_x st else 0) (if withCell then mv_y st else 0) 0 None;
               game2 = addGameEvent game1 (actor_id (actorStore game1 actor)) EvDamage damageDelay
                         (mv_x st) (mv_y st) damage None;
               game3 = updActor target (\<lambda>a. a\<lparr>health := health a - damage\<rparr>) game2
           in if health (actorStore game3 target) \<le> 0 then kill env game3 d target killDelay
              else game3))"

text \<open>Lines 466-469, repeated after each of the four engagements.\<close>

definition engaged :: "Env \<Rightarrow> ref \<Rightarrow> GameState \<Rightarrow> GameState" where
  "engaged env actor game =
     (let game1 = (if moves (actorStore game actor) < maxMoves (actorStore game actor)
                   then updActor actor (\<lambda>a. a\<lparr>moves := 0\<rparr>) game else game)
      in game1\<lparr>possibleMoves := calcMoves env game1 actor\<rparr>)"

definition stepShoot :: "Env \<Rightarrow> GameMove \<Rightarrow> dref \<Rightarrow> ref \<Rightarrow> GameState \<Rightarrow> GameState" where
  "stepShoot env st d actor game =
     (if mv_type st = MvShoot then
        engaged env actor
          (strike env st d actor None EvShoot True 300 300
             (updActor actor (\<lambda>a. a\<lparr>actions := actions a - 1\<rparr>) game))
      else game)"

definition stepMagic :: "Env \<Rightarrow> GameMove \<Rightarrow> dref \<Rightarrow> ref \<Rightarrow> GameState \<Rightarrow> GameState" where
  "stepMagic env st d actor game =
     (if mv_type st = MvMagic then
        engaged env actor
          (strike env st d actor (Some 2) EvMagic True 300 300
             (updActor actor (\<lambda>a. a\<lparr>actions := actions a - 1, magic := magic a - 3\<rparr>) game))
      else game)"

definition stepHeal :: "Env \<Rightarrow> GameMove \<Rightarrow> dref \<Rightarrow> ref \<Rightarrow> GameState \<Rightarrow> GameState" where
  "stepHeal env st d actor game =
     (if mv_type st = MvHeal then
        (let game1 = updActor actor (\<lambda>a. a\<lparr>actions := actions a - 1, magic := magic a - 2\<rparr>) game;
             game2 = (case getActorAt game1 d (mv_x st) (mv_y st) of
                        None \<Rightarrow> game1
                      | Some target \<Rightarrow>
                          (let g1 = updActor target (\<lambda>a. a\<lparr>health := health a + 2\<rparr>) game1;
                               g2 = (if health (actorStore g1 target) > maxHealth (actorStore g1 target)
                                     then updActor target (\<lambda>a. a\<lparr>health := maxHealth a\<rparr>) g1
                                     else g1)
                           in addGameEvent g2 (actor_id (actorStore g2 actor)) EvHeal 0
                                (mv_x st) (mv_y st) 2 None))
         in engaged env actor game2)
      else game)"

definition stepAttack :: "Env \<Rightarrow> GameMove \<Rightarrow> dref \<Rightarrow> ref \<Rightarrow> GameState \<Rightarrow> GameState" where
  "stepAttack env st d actor game =
     (if mv_type st = MvAttack then
        engaged env actor
          (strike env st d actor None EvMelee False 100 0
             (updActor actor (\<lambda>a. a\<lparr>actions := actions a - 1\<rparr>) game))
      else game)"

text \<open>Lines 542-573: the completion check, the descent, clearing the activity.\<close>

definition completeActivity ::
  "Env \<Rightarrow> GameMove \<Rightarrow> Activity \<Rightarrow> dref \<Rightarrow> ref \<Rightarrow> GameState \<Rightarrow> error + GameState" where
  "completeActivity env st act d actor game =
     (if mv_x st = act_tx act \<and> mv_y st = act_ty act then
        (case descend env d actor game of
           Inl e \<Rightarrow> Inl e
         | Inr (game1, actor1) \<Rightarrow>
             (let game2 = game1\<lparr>currentActivity := None\<rparr>
              in Inr (game2\<lparr>possibleMoves := calcMoves env game2 actor1\<rparr>)))
      else Inr game)"

definition applySteps :: "Env \<Rightarrow> GameMove \<Rightarrow> dref \<Rightarrow> ref \<Rightarrow> GameState \<Rightarrow> GameState" where
  "applySteps env st d actor game =
     stepAttack env st d actor
       (stepHeal env st d actor
          (stepMagic env st d actor
             (stepShoot env st d actor
                (stepChest env st d actor
                   (stepOpen env st d actor
                      (stepMove env st actor game))))))"

definition applyCurrentActivity :: "Env \<Rightarrow> GameState \<Rightarrow> error + (GameState \<times> bool)" where
  "applyCurrentActivity env game0 =
     (case currentActivity game0 of
        None \<Rightarrow> Inr (game0, False)
      | Some act \<Rightarrow>
          (let game = game0\<lparr>lastUpdate := now env\<rparr> in
           case getDungeonById game (act_dungeonId act) of
             None \<Rightarrow> Inr (game, False)
           | Some d \<Rightarrow>
               (case find (\<lambda>r. actor_id (actorStore game r) = act_actorId act)
                          (dg_actors (dungeonStore game d)) of
                  None \<Rightarrow> Inr (game, True)
                | Some actor \<Rightarrow>
                    (case findNextStep env game actor (act_tx act) (act_ty act) of
                       None \<Rightarrow> Inr (game, True)
                     | Some st \<Rightarrow>
                         (case completeActivity env st act d actor
                                 (applySteps env st d actor game) of
                            Inl e \<Rightarrow> Inl e
                          | Inr game1 \<Rightarrow> Inr (game1, True))))))"

section \<open>Evil Turn Planner: takeEvilTurn\<close>

text \<open>
  \<open>Array.prototype.sort\<close> with the comparator \<open>distance(a) - distance(b)\<close> is a stable
  sort by distance: \<open>sort_key\<close>.
\<close>

definition planMonster :: "Env \<Rightarrow> ref \<Rightarrow> GameState \<Rightarrow> GameState" where
  "planMonster env monster game0 =
     (let game = game0\<lparr>possibleMoves := calcMoves env game0 monster\<rparr>;
          m = actorStore game monster
      in if length (possibleMoves game) > 0 then
           (case getAdjacentHero env game (dungeonId m) monster of
              Some hero \<Rightarrow>
                (let game1 =
                       (case find (\<lambda>mv. mv_x mv = actor_x (actorStore game hero) \<and>
                                        mv_y mv = actor_y (actorStore game hero))
                                  (possibleMoves game) of
                          Some attackMove \<Rightarrow>
                            game\<lparr>currentActivity :=
                              Some \<lparr>act_dungeonId = dungeonId m, act_actorId = actor_id m,
                                    act_startTime = now env, act_tx = mv_x attackMove,
                                    act_ty = mv_y attackMove\<rparr>\<rparr>
                        | None \<Rightarrow> game)
                 in updActor monster (\<lambda>a. a\<lparr>actions := actions a - 1\<rparr>) game1)
            | None \<Rightarrow>
                (let game1 = game\<lparr>possibleMoves :=
                               sort_key (\<lambda>mv. distanceToHero env game (dungeonId m) (mv_x mv) (mv_y mv))
                                        (possibleMoves game)\<rparr>;
                     bestMove = hd (possibleMoves game1)
                 in if distanceToHero env game1 (dungeonId m) (mv_x bestMove) (mv_y bestMove)
                       < distanceToHero env game1 (dungeonId m) (actor_x m) (actor_y m)
                    then game1\<lparr>currentActivity :=
                           Some \<lparr>act_dungeonId = dungeonId m, act_actorId = actor_id m,
                                 act_startTime = now env, act_tx = mv_x bestMove,
                                 act_ty = mv_y bestMove\<rparr>\<rparr>
                    else updActor monster (\<lambda>a. a\<lparr>moves := 0, actions := 0\<rparr>) game1))
         else updActor monster (\<lambda>a. a\<lparr>moves := 0, actions := 0\<rparr>) game)"

definition eligibleMonsters :: "Env \<Rightarrow> GameState \<Rightarrow> ref list" where
  "eligibleMonsters env game =
     sort_key (\<lambda>r. distanceToHero env game (dungeonId (actorStore game r))
                     (actor_x (actorStore game r)) (actor_y (actorStore game r)))
       (filter (\<lambda>r. let nextToHero = standingNextToHero env game r
                    in (moves (actorStore game r) > 0 \<and> \<not> nextToHero) \<or>
                       (actions (actorStore game r) > 0 \<and> nextToHero))
               (findActiveMonsters env game))"

definition takeEvilTurn :: "Env \<Rightarrow> GameState \<Rightarrow> (error + GameState) option" where
  "takeEvilTurn env game0 =
     (if length (allHeroes game0) = 0 then Some (Inr game0)
      else
        (let game = game0\<lparr>evilTurnMax := evilTurnMax game0 - 1\<rparr> in
         if evilTurnMax game \<le> 0 then nextTurn env game
         else
           (case eligibleMonsters env game of
              monster # rest \<Rightarrow> Some (Inr (planMonster env monster game))
            | [] \<Rightarrow> nextTurn env game)))"

section \<open>The leave hook and the Tick Driver\<close>

definition playerLeft :: "Env \<Rightarrow> GameState \<Rightarrow> string \<Rightarrow> (error + GameState) option" where
  "playerLeft env game playerIdent =
     (case map_of (playerInfo game) playerIdent of
        None \<Rightarrow> Some (Inr game)
      | Some info \<Rightarrow>
          (case (if whoseTurn game = playerIdent then nextTurn env game else Some (Inr game)) of
             None \<Rightarrow> None
           | Some (Inl e) \<Rightarrow> Some (Inl e)
           | Some (Inr game1) \<Rightarrow>
               (let game2 =
                      (case getDungeonById game1 (pi_dungeonId info) of
                         None \<Rightarrow> game1
                       | Some d \<Rightarrow>
                           updDungeon d
                             (\<lambda>dg. dg\<lparr>dg_actors :=
                                filter (\<lambda>r. actor_id (actorStore game1 r) \<noteq> pi_actorId info)
                                       (dg_actors dg)\<rparr>)
                             (game1\<lparr>playerOrder :=
                                splice (indexOf (playerOrder game1) playerIdent) 1 []
                                       (playerOrder game1)\<rparr>))
                in Some (Inr (game2\<lparr>playerInfo := AList.delete playerIdent (playerInfo game2)\<rparr>)))))"

definition pruneDungeons :: "GameState \<Rightarrow> GameState" where
  "pruneDungeons game =
     (if length (dungeons game) > 2 then
        fold (\<lambda>d g. if find (\<lambda>r. good (actorStore g r)) (dg_actors (dungeonStore g d)) = None
                    then g\<lparr>dungeons := splice (indexOf (dungeons g) d) 1 [] (dungeons g)\<rparr>
                    else g)
             (dungeons game) game
      else game)"

definition update :: "Env \<Rightarrow> GameState \<Rightarrow> (error + GameState) option" where
  "update env game0 =
     (let game = pruneDungeons (game0\<lparr>events := []\<rparr>) in
      if real_of_int (now env - lastUpdate game) > 1000 / 3 then
        (case applyCurrentActivity env game of
           Inl e \<Rightarrow> Some (Inl e)
         | Inr (game1, applied) \<Rightarrow>
             if \<not> applied then
               (if whoseTurn game1 = ''evil'' then takeEvilTurn env game1
                else if length (possibleMoves game1) = 0 then
                       (if length (playerOrder game1) > 0 then nextTurn env game1
                        else Some (Inr game1))
                     else Some (Inr game1))
             else Some (Inr game1))
      else Some (Inr game))"

section \<open>A small game used to run the definitions\<close>

definition inRoom :: "Room \<Rightarrow> int \<Rightarrow> int \<Rightarrow> bool" where
  "inRoom r px py \<longleftrightarrow>
     room_x r \<le> px \<and> px < room_x r + room_width r \<and> room_y r \<le> py \<and> py < room_y r + room_height r"

definition startRoom0 :: Room where
  "startRoom0 = \<lparr>room_x = 0, room_y = 0, room_width = 5, room_height = 5, room_start = True,
     stairsDown = False, discovered = True\<rparr>"

definition stairsRoom0 :: Room where
  "stairsRoom0 = \<lparr>room_x = 10, room_y = 0, room_width = 5, room_height = 5, room_start = False,
     stairsDown = True, discovered = True\<rparr>"

definition dungeon0 :: Dungeon where
  "dungeon0 = \<lparr>dg_id = 1, dg_level = 1, dg_rooms = [startRoom0, stairsRoom0], dg_doors = [],
     dg_chests = [], dg_actors = [0, 1]\<rparr>"

definition env0 :: Env where
  "env0 = \<lparr>now = 1000, rollDraws = (\<lambda>i. 0), goldDraw = 1 / 2, startDraw = 0,
     findNextStep = (\<lambda>g r tx ty. None), calcMoves = (\<lambda>g r. []),
     blocked = (\<lambda>d px py. False), roomContains = inRoom, roomTouches = inRoom,
     generateDungeon = (\<lambda>g level.
        \<lparr>gen_dungeon = \<lparr>dg_id = nextId g, dg_level = level, dg_rooms = [startRoom0, stairsRoom0],
                         dg_doors = [], dg_chests = [], dg_actors = []\<rparr>,
         gen_actors = [], gen_nextId = nextId g + 1\<rparr>),
     createActor = (\<lambda>pid g cls did px py.
        (heroA\<lparr>actor_id := nextId g, playerId := Some pid, dungeonId := did, actor_x := px,
                actor_y := py, lx := px, ly := py\<rparr>, nextId g + 1)),
     createItem = (\<lambda>g ty. (\<lparr>item_id = nextId g, item_type = ty\<rparr>, nextId g + 1)),
     createMonsterItemLoot = (\<lambda>g r. None),
     addItemToInventory = (\<lambda>inv item. inv @ [item]),
     findActiveHero = (\<lambda>g. allHeroes g \<noteq> []),
     findActiveMonsters = (\<lambda>g. concat (map (\<lambda>d. filter (\<lambda>r. \<not> good (actorStore g r))
                                                  (dg_actors (dungeonStore g d))) (dungeons g))),
     standingNextToHero = (\<lambda>g r. False),
     distanceToHero = (\<lambda>g did px py. 0),
     getAdjacentHero = (\<lambda>g did r. None)\<rparr>"

text \<open>
  One dungeon of level 1 holding the hero of player \<open>p1\<close> (reference 0) and a monster
  (reference 1); the turn order is \<open>p1, evil\<close> and it is \<open>p1\<close>'s turn.
\<close>

definition game0 :: GameState where
  "game0 = \<lparr>persisted = None, gold = 0, items = [], nextId = 20,
     playerOrder = [''p1'', ''evil''], deadHeroes = [],
     playerInfo = [(''p1'', \<lparr>pi_dungeonId = 1, pi_type = ''knight'', pi_actorId = 7, pi_name = ''Ann''\<rparr>)],
     whoseTurn = ''p1'', dungeons = [0], possibleMoves = [], currentActivity = None,
     lastUpdate = 0, events = [], evilTurnMax = 0, whoseSave = None, saveDesc = None,
     time = 0, saveLevel = 0,
     actorStore = (\<lambda>r. if r = 0 then heroA else monsterB),
     dungeonStore = (\<lambda>d. dungeon0), nextRef = 2, nextDref = 1, gameOver = False\<rparr>"

definition goneAct :: Activity where
  "goneAct = \<lparr>act_dungeonId = 1, act_actorId = 99, act_startTime = 0, act_tx = 3, act_ty = 3\<rparr>"


text \<open>
  Planner scenarios. The monster stands at (2, 3) below the hero at (2, 2). With
  \<open>envAway\<close> the hero counts as adjacent and the only legal move leads away from it;
  with \<open>envHit\<close> a legal move also targets the hero's cell. In \<open>gameEvil\<close> it is evil's
  turn with a budget of 100; in \<open>gameSolo\<close> evil is alone in the turn order and the
  monster has no moves left.
\<close>

definition mvAway :: GameMove where
  "mvAway = \<lparr>mv_x = 2, mv_y = 4, mv_sx = 2, mv_sy = 3, mv_type = MvMove, mv_depth = 1\<rparr>"

definition mvHit :: GameMove where
  "mvHit = \<lparr>mv_x = 2, mv_y = 2, mv_sx = 2, mv_sy = 3, mv_type = MvAttack, mv_depth = 1\<rparr>"

definition envAway :: Env where
  "envAway = env0\<lparr>calcMoves := (\<lambda>g r. [mvAway]), standingNextToHero := (\<lambda>g r. True),
     getAdjacentHero := (\<lambda>g did r. Some 0)\<rparr>"

definition envHit :: Env where
  "envHit = envAway\<lparr>calcMoves := (\<lambda>g r. [mvAway, mvHit])\<rparr>"

definition gameEvil :: GameState where
  "gameEvil = game0\<lparr>whoseTurn := ''evil'', evilTurnMax := 100\<rparr>"

definition gameSolo :: GameState where
  "gameSolo = game0\<lparr>playerOrder := [''evil''], whoseTurn := ''evil'', evilTurnMax := 100,
     actorStore := (actorStore game0)(1 := monsterB\<lparr>moves := 0\<rparr>)\<rparr>"



section \<open>Resource bounds\<close>

text \<open>
  The bounds of the specification for one actor, and for every actor listed in a dungeon
  of the game. A step is affordable for an actor when the actor can pay what the
  executor subtracts for it: one move for \<open>move\<close>, 3 magic for \<open>magic\<close>, 2 magic for
  \<open>heal\<close>.
\<close>

definition boundsOK :: "Actor \<Rightarrow> bool" where
  "boundsOK a \<longleftrightarrow>
     0 \<le> health a \<and> health a \<le> maxHealth a \<and> 0 \<le> magic a \<and> magic a \<le> maxMagic a \<and>
     0 \<le> moves a \<and> moves a \<le> maxMoves a"









text \<open>
  The relation between the state before and after an operation that carries the bounds
  over: an actor object within its bounds stays within them, and every actor listed in
  a dungeon afterwards was listed before or is within its bounds.
\<close>

definition keepsBounds :: "GameState \<Rightarrow> GameState \<Rightarrow> bool" where
  "keepsBounds g g' \<longleftrightarrow>
     (\<forall>r. boundsOK (actorStore g r) \<longrightarrow> boundsOK (actorStore g' r)) \<and>
     (\<forall>d' \<in> set (dungeons g'). \<forall>r \<in> set (dg_actors (dungeonStore g' d')).
        (\<exists>d \<in> set (dungeons g). r \<in> set (dg_actors (dungeonStore g d))) \<or>
        boundsOK (actorStore g' r))"

section \<open>Properties of the Combat Resolver\<close>











text \<open>
  Scenario A run on draws 0.1, 0.4, 0.9, 0.2: two skulls (0.1 and 0.4 are below 1/2), no
  shield (0.9 and 0.2 are not below 1/6), damage 2.
\<close>

lemma rollCombat_scenario_A:
  "rollCombat (\<lambda>i. [1 / 10, 4 / 10, 9 / 10, 2 / 10] ! i) heroA (Some monsterB) None = 2"
  by (simp add: rollCombat_def attackScore_def manhattan_def heroA_def monsterB_def
      actor0_def Let_def numeral_2_eq_2)

section \<open>Facts about indexOf and splice\<close>

lemma indexOf_notin: "v \<notin> set xs \<Longrightarrow> indexOf xs v = -1"
  by (induction xs) (auto simp: Let_def)

lemma indexOf_range: "v \<in> set xs \<Longrightarrow> 0 \<le> indexOf xs v \<and> indexOf xs v < int (length xs)"
  by (induction xs) (auto simp: Let_def)

lemma indexOf_nonneg_iff: "0 \<le> indexOf xs v \<longleftrightarrow> v \<in> set xs"
proof (cases "v \<in> set xs")
  case True
  then show ?thesis using indexOf_range [of v xs] by simp
next
  case False
  then show ?thesis using indexOf_notin [of v xs] by simp
qed

lemma take_drop_indexOf:
  "v \<in> set xs \<Longrightarrow> take (nat (indexOf xs v)) xs @ drop (nat (indexOf xs v + 1)) xs = remove1 v xs"
proof (induction xs)
  case Nil
  then show ?case by simp
next
  case (Cons x xs)
  show ?case
  proof (cases "x = v")
    case True
    then show ?thesis by simp
  next
    case False
    with Cons.prems have mem: "v \<in> set xs" by simp
    from indexOf_range [OF mem] have nn: "0 \<le> indexOf xs v" by simp
    have n1: "nat (indexOf xs v + 1) = Suc (nat (indexOf xs v))" using nn by simp
    have n2: "nat (2 + indexOf xs v) = Suc (Suc (nat (indexOf xs v)))" using nn by simp
    show ?thesis using False nn Cons.IH [OF mem] by (simp add: Let_def n1 n2)
  qed
qed

lemma splice_indexOf_in:
  "v \<in> set xs \<Longrightarrow> splice (indexOf xs v) 1 [] xs = remove1 v xs"
proof -
  assume mem: "v \<in> set xs"
  from indexOf_range [OF mem] have r: "0 \<le> indexOf xs v" "indexOf xs v < int (length xs)" by simp_all
  have d: "min (max 1 0) (int (length xs) - indexOf xs v) = (1::int)" using r by simp
  show ?thesis
    unfolding splice_def Let_def using r take_drop_indexOf [OF mem] by (simp add: d min_def)
qed

lemma splice_indexOf_notin:
  "v \<notin> set xs \<Longrightarrow> splice (indexOf xs v) 1 [] xs = butlast xs"
proof -
  assume "v \<notin> set xs"
  then have i: "indexOf xs v = -1" by (rule indexOf_notin)
  show ?thesis
  proof (cases xs rule: rev_cases)
    case Nil
    then show ?thesis by (simp add: splice_def i)
  next
    case (snoc ys y)
    have i': "indexOf (ys @ [y]) v = -1" using i snoc by simp
    show ?thesis unfolding snoc by (simp add: splice_def i')
  qed
qed

lemma splice_insert_before_last:
  "xs \<noteq> [] \<Longrightarrow> splice (int (length xs) - 1) 0 [p] xs = butlast xs @ [p, last xs]"
proof -
  assume ne: "xs \<noteq> []"
  then obtain ys y where xs: "xs = ys @ [y]" by (cases xs rule: rev_cases) auto
  show ?thesis unfolding splice_def Let_def xs by (simp add: max_def min_def)
qed

lemma splice_insert_empty: "splice (int (length ([]::'a list)) - 1) 0 [p] [] = [p]"
  by (simp add: splice_def)

section \<open>The executor when the acting actor is gone\<close>

lemma getDungeonById_lastUpdate [simp]:
  "getDungeonById (g\<lparr>lastUpdate := t\<rparr>) i = getDungeonById g i"
  by (simp add: getDungeonById_def)

text \<open>
  C10. When an activity exists, its dungeon exists and no actor of that dungeon carries
  the activity's actor id, \<open>applyCurrentActivity\<close> returns true and changes nothing but
  \<open>lastUpdate\<close>: no event, the activity stays. The tick driver then returns that state
  without any turn logic: after clearing the events and pruning, a due step gives the
  pruned state with the new \<open>lastUpdate\<close>.
\<close>

theorem applyCurrentActivity_actor_gone:
  assumes "currentActivity g = Some act"
    and "getDungeonById g (act_dungeonId act) = Some d"
    and "find (\<lambda>r. actor_id (actorStore g r) = act_actorId act) (dg_actors (dungeonStore g d)) = None"
  shows "applyCurrentActivity env g = Inr (g\<lparr>lastUpdate := now env\<rparr>, True) \<and>
         events (g\<lparr>lastUpdate := now env\<rparr>) = events g \<and>
         currentActivity (g\<lparr>lastUpdate := now env\<rparr>) = Some act \<and>
         (pruneDungeons (g0\<lparr>events := []\<rparr>) = g \<and> 1000 / 3 < real_of_int (now env - lastUpdate g)
            \<longrightarrow> update env g0 = Some (Inr (g\<lparr>lastUpdate := now env\<rparr>)))"
proof -
  have a: "applyCurrentActivity env g = Inr (g\<lparr>lastUpdate := now env\<rparr>, True)"
    using assms by (simp add: applyCurrentActivity_def Let_def)
  have u: "update env g0 = Some (Inr (g\<lparr>lastUpdate := now env\<rparr>))"
    if "pruneDungeons (g0\<lparr>events := []\<rparr>) = g" "1000 / 3 < real_of_int (now env - lastUpdate g)"
    using that a by (simp add: update_def Let_def)
  show ?thesis using a u assms(1) by simp
qed

text \<open>
  The small game with an activity of actor id 99, which no actor of the dungeon has: the
  step returns true and only \<open>lastUpdate\<close> changes, also through the tick driver.
\<close>

lemma pruneDungeons_small: "length (dungeons g) \<le> 2 \<Longrightarrow> pruneDungeons g = g"
  by (simp add: pruneDungeons_def)

theorem applyCurrentActivity_actor_gone_witness:
  "applyCurrentActivity env0 (game0\<lparr>currentActivity := Some goneAct\<rparr>)
     = Inr (game0\<lparr>currentActivity := Some goneAct, lastUpdate := 1000\<rparr>, True) \<and>
   update env0 (game0\<lparr>currentActivity := Some goneAct\<rparr>)
     = Some (Inr (game0\<lparr>currentActivity := Some goneAct, lastUpdate := 1000\<rparr>))"
proof -
  let ?g = "game0\<lparr>currentActivity := Some goneAct\<rparr>"
  have h1: "currentActivity ?g = Some goneAct" by simp
  have h2: "getDungeonById ?g (act_dungeonId goneAct) = Some 0"
    by (simp add: getDungeonById_def game0_def goneAct_def dungeon0_def)
  have h3: "find (\<lambda>r. actor_id (actorStore ?g r) = act_actorId goneAct)
              (dg_actors (dungeonStore ?g 0)) = None"
    by (simp add: game0_def goneAct_def dungeon0_def heroA_def monsterB_def actor0_def)
  have ev: "?g\<lparr>events := []\<rparr> = ?g" by (simp add: game0_def)
  have h4: "pruneDungeons (?g\<lparr>events := []\<rparr>) = ?g"
    unfolding ev by (rule pruneDungeons_small) (simp add: game0_def)
  have h5: "1000 / 3 < real_of_int (now env0 - lastUpdate ?g)"
    by (simp add: env0_def game0_def)
  have n: "now env0 = 1000" by (simp add: env0_def)
  show ?thesis
    using applyCurrentActivity_actor_gone [OF h1 h2 h3, of env0 ?g] h4 h5
    by (simp add: n)
qed

section \<open>Properties of the Death and Loot Handler\<close>


lemma lootGold_slice:
  "lootGold r gr = k \<longleftrightarrow>
     real_of_int (k - gold_min gr) \<le> r * real_of_int (gold_max gr - gold_min gr) \<and>
     r * real_of_int (gold_max gr - gold_min gr) < real_of_int (k - gold_min gr) + 1"
proof -
  have "lootGold r gr = k \<longleftrightarrow> \<lfloor>r * real_of_int (gold_max gr - gold_min gr)\<rfloor> = k - gold_min gr"
    unfolding lootGold_def by linarith
  then show ?thesis by (simp only: floor_eq_iff)
qed


lemma kill_stores:
  "actorStore (kill env g d target extraDelay) = actorStore (killRemove g d target extraDelay)"
  "dungeonStore (kill env g d target extraDelay) = dungeonStore (killRemove g d target extraDelay)"
  by (simp_all add: kill_def addGameEvent_def Let_def split: option.splits prod.splits)











section \<open>Frames of the Turn Manager\<close>

lemma resetEvil_inner_frame:
  "\<exists>s. fold (\<lambda>r g1. if \<not> good (actorStore g1 r)
                       then updActor r (\<lambda>a. a\<lparr>moves := maxMoves a, actions := 1\<rparr>) g1 else g1) rs g
       = g\<lparr>actorStore := s\<rparr>"
proof (induction rs arbitrary: g)
  case Nil
  show ?case by (rule exI [of _ "actorStore g"]) simp
next
  case (Cons r rs)
  let ?g = "if \<not> good (actorStore g r)
            then updActor r (\<lambda>a. a\<lparr>moves := maxMoves a, actions := 1\<rparr>) g else g"
  from Cons.IH [of ?g] obtain s where
    s: "fold (\<lambda>r g1. if \<not> good (actorStore g1 r)
                       then updActor r (\<lambda>a. a\<lparr>moves := maxMoves a, actions := 1\<rparr>) g1 else g1) rs ?g
        = ?g\<lparr>actorStore := s\<rparr>" by blast
  have e: "?g\<lparr>actorStore := s\<rparr> = g\<lparr>actorStore := s\<rparr>" by (simp add: updActor_def)
  show ?case by (rule exI [of _ s]) (simp only: fold_simps s e)
qed


lemma resetEvil_frame: "\<exists>s. resetEvil g = g\<lparr>actorStore := s\<rparr>"
proof -
  let ?inner = "\<lambda>d g. fold (\<lambda>r g1. if \<not> good (actorStore g1 r)
                               then updActor r (\<lambda>a. a\<lparr>moves := maxMoves a, actions := 1\<rparr>) g1
                               else g1)
                      (dg_actors (dungeonStore g d)) g"
  have "\<exists>s. fold ?inner ds g0 = g0\<lparr>actorStore := s\<rparr>" for ds g0
  proof (induction ds arbitrary: g0)
    case Nil
    show ?case by (rule exI [of _ "actorStore g0"]) simp
  next
    case (Cons d ds)
    obtain s1 where s1: "?inner d g0 = g0\<lparr>actorStore := s1\<rparr>"
      using resetEvil_inner_frame by blast
    from Cons.IH [of "g0\<lparr>actorStore := s1\<rparr>"] obtain s where
      s: "fold ?inner ds (g0\<lparr>actorStore := s1\<rparr>) = g0\<lparr>actorStore := s1\<rparr>\<lparr>actorStore := s\<rparr>"
      by blast
    have e: "g0\<lparr>actorStore := s1\<rparr>\<lparr>actorStore := s\<rparr> = g0\<lparr>actorStore := s\<rparr>" by simp
    show ?case by (rule exI [of _ s]) (simp only: fold_simps s1 s e)
  qed
  then show ?thesis unfolding resetEvil_def by blast
qed

lemma resetEvil_fields [simp]:
  "evilTurnMax (resetEvil g) = evilTurnMax g" "whoseTurn (resetEvil g) = whoseTurn g"
  "playerOrder (resetEvil g) = playerOrder g" "events (resetEvil g) = events g"
  "currentActivity (resetEvil g) = currentActivity g" "dungeonStore (resetEvil g) = dungeonStore g"
  "dungeons (resetEvil g) = dungeons g" "playerInfo (resetEvil g) = playerInfo g"
proof -
  obtain s where s: "resetEvil g = g\<lparr>actorStore := s\<rparr>" using resetEvil_frame by blast
  show "evilTurnMax (resetEvil g) = evilTurnMax g" "whoseTurn (resetEvil g) = whoseTurn g"
  "playerOrder (resetEvil g) = playerOrder g" "events (resetEvil g) = events g"
  "currentActivity (resetEvil g) = currentActivity g" "dungeonStore (resetEvil g) = dungeonStore g"
  "dungeons (resetEvil g) = dungeons g" "playerInfo (resetEvil g) = playerInfo g"
    unfolding s by simp_all
qed

text \<open>What one pass of the body leaves alone, and what it does to the budget.\<close>

lemma nextTurnBody_recurse:
  "nextTurnBody env g = Inl g1 \<Longrightarrow>
     g1 = g\<lparr>whoseTurn := whoseTurn g1\<rparr> \<and> whoseTurn g1 \<noteq> ''evil''"
  unfolding nextTurnBody_def Let_def
  by (simp split: if_splits option.splits) auto

lemma nextTurnBody_done:
  assumes "nextTurnBody env g = Inr (Inr g')"
  shows "playerOrder g' = playerOrder g \<and>
     ((evilTurnMax g' = evilTurnMax g \<and> whoseTurn g' \<noteq> ''evil'') \<or>
      (evilTurnMax g' = 100 \<and> whoseTurn g' = ''evil''))"
  using assms unfolding nextTurnBody_def Let_def
  by (simp add: addGameEvent_def updActor_def split: if_splits option.splits) auto


lemma nextTurn_outcome:
  assumes "nextTurn env g = Some y"
  shows "\<forall>g'. y = Inr g' \<longrightarrow>
     playerOrder g' = playerOrder g \<and>
     ((evilTurnMax g' = evilTurnMax g \<and> whoseTurn g' \<noteq> ''evil'') \<or>
      (evilTurnMax g' = 100 \<and> whoseTurn g' = ''evil''))"
  using assms
proof (induction env g y rule: nextTurn.raw_induct [rotated, consumes 1])
  case (1 nt env g y)
  show ?case
  proof (cases "nextTurnBody env g")
    case (Inl g1)
    with 1(2) have r: "nt env g1 = Some y" by simp
    from nextTurnBody_recurse [OF Inl] have e: "g1 = g\<lparr>whoseTurn := whoseTurn g1\<rparr>" by simp
    have "playerOrder g1 = playerOrder g" "evilTurnMax g1 = evilTurnMax g"
      by (subst e, simp)+
    with 1(1) [OF r] show ?thesis by simp
  next
    case (Inr outcome)
    with 1(2) have "outcome = y" by simp
    with Inr nextTurnBody_done [of env g] show ?thesis by auto
  qed
qed

lemma nextTurn_budget:
  "nextTurn env g = Some (Inr g') \<Longrightarrow>
     playerOrder g' = playerOrder g \<and>
     ((evilTurnMax g' = evilTurnMax g \<and> whoseTurn g' \<noteq> ''evil'') \<or>
      (evilTurnMax g' = 100 \<and> whoseTurn g' = ''evil''))"
  using nextTurn_outcome by blast

text \<open>The turn passes to evil at once when evil is the next entry of the turn order.\<close>

lemma nextTurn_to_evil:
  assumes "playerOrder g \<noteq> []" and "nextHolder g = ''evil''"
  shows "nextTurn env g =
     Some (Inr (addGameEvent (resetEvil (g\<lparr>whoseTurn := ''evil'', evilTurnMax := 100\<rparr>))
                  0 EvTurnChange 0 0 0 0 None))"
  using assms
  by (subst nextTurn.simps) (simp add: nextTurnBody_def nextHolder_def Let_def)

section \<open>Properties of the Evil Turn Planner\<close>

lemma planMonster_budget [simp]: "evilTurnMax (planMonster env m g) = evilTurnMax g"
  by (simp add: planMonster_def updActor_def Let_def split: option.splits)

text \<open>
  C8 (as amended). When \<open>nextTurn\<close> hands the turn to evil the budget is 100, at
  once when evil is the next entry and also after skipping dead holders. While a
  hero is active, \<open>takeEvilTurn\<close> first lowers the budget by 1. If that leaves it at 0 or
  below, the planner only advances the turn, whatever monsters are eligible, and no
  monster is planned. If an eligible monster is planned, the budget ends exactly 1 lower.
  In every case a planner call that returns leaves the budget 1 lower, unless the call
  itself advanced the turn and the turn came back to evil, which resets the budget
  to 100.
\<close>

theorem evil_budget:
  "(playerOrder g \<noteq> [] \<and> nextHolder g = ''evil'' \<longrightarrow>
      (\<exists>g'. nextTurn env g = Some (Inr g') \<and> evilTurnMax g' = 100 \<and> whoseTurn g' = ''evil'')) \<and>
   (\<forall>g'. nextTurn env g = Some (Inr g') \<and> whoseTurn g' = ''evil'' \<longrightarrow> evilTurnMax g' = 100) \<and>
   (allHeroes g \<noteq> [] \<longrightarrow>
      (evilTurnMax g \<le> 1 \<longrightarrow>
         takeEvilTurn env g = nextTurn env (g\<lparr>evilTurnMax := evilTurnMax g - 1\<rparr>)) \<and>
      (1 < evilTurnMax g \<and> eligibleMonsters env (g\<lparr>evilTurnMax := evilTurnMax g - 1\<rparr>) \<noteq> [] \<longrightarrow>
         (\<exists>g'. takeEvilTurn env g = Some (Inr g') \<and> evilTurnMax g' = evilTurnMax g - 1)) \<and>
      (\<forall>g'. takeEvilTurn env g = Some (Inr g') \<longrightarrow>
         evilTurnMax g' = evilTurnMax g - 1 \<or> (evilTurnMax g' = 100 \<and> whoseTurn g' = ''evil'')))"
proof -
  let ?g = "g\<lparr>evilTurnMax := evilTurnMax g - 1\<rparr>"
  have a: "\<exists>g'. nextTurn env g = Some (Inr g') \<and> evilTurnMax g' = 100 \<and> whoseTurn g' = ''evil''"
    if "playerOrder g \<noteq> []" "nextHolder g = ''evil''"
    using nextTurn_to_evil [OF that, of env] by (simp add: addGameEvent_def)
  have b: "takeEvilTurn env g = nextTurn env ?g" if "allHeroes g \<noteq> []" "evilTurnMax g \<le> 1"
    using that by (simp add: takeEvilTurn_def Let_def)
  have c: "\<exists>g'. takeEvilTurn env g = Some (Inr g') \<and> evilTurnMax g' = evilTurnMax g - 1"
    if "allHeroes g \<noteq> []" "1 < evilTurnMax g" "eligibleMonsters env ?g \<noteq> []"
    using that by (cases "eligibleMonsters env ?g") (simp_all add: takeEvilTurn_def Let_def)
  have d: "evilTurnMax g' = evilTurnMax g - 1 \<or> (evilTurnMax g' = 100 \<and> whoseTurn g' = ''evil'')"
    if h: "allHeroes g \<noteq> []" and r: "takeEvilTurn env g = Some (Inr g')" for g'
  proof (cases "evilTurnMax g \<le> 1 \<or> eligibleMonsters env ?g = []")
    case True
    then have "takeEvilTurn env g = nextTurn env ?g"
      using h by (auto simp: takeEvilTurn_def Let_def)
    with r have "nextTurn env ?g = Some (Inr g')" by simp
    from nextTurn_budget [OF this] show ?thesis by auto
  next
    case False
    then obtain m rest where e: "eligibleMonsters env ?g = m # rest"
      by (cases "eligibleMonsters env ?g") auto
    with False h r have "g' = planMonster env m ?g"
      by (simp add: takeEvilTurn_def Let_def)
    then show ?thesis by simp
  qed
  have e: "evilTurnMax g' = 100" if "nextTurn env g = Some (Inr g')" "whoseTurn g' = ''evil''" for g'
    using nextTurn_budget [OF that(1)] that(2) by simp
  show ?thesis using a b c d e by blast
qed

lemma game0_turn: "playerOrder game0 \<noteq> []" "nextHolder game0 = ''evil''"
  by (simp_all add: nextHolder_def game0_def Let_def)

lemma gameEvil_heroes: "allHeroes (gameEvil\<lparr>evilTurnMax := b\<rparr>) \<noteq> []"
  by (simp add: allHeroes_def gameEvil_def game0_def dungeon0_def heroA_def actor0_def)

lemma gameEvil_eligible: "eligibleMonsters env0 (gameEvil\<lparr>evilTurnMax := b\<rparr>) = [1]"
  by (simp add: eligibleMonsters_def env0_def gameEvil_def game0_def dungeon0_def heroA_def
      monsterB_def actor0_def Let_def)

text \<open>
  In the small game the entry after \<open>p1\<close> is evil, so ending \<open>p1\<close>'s turn sets the
  budget to 100; a planner call at budget 100 with an eligible monster leaves 99; a
  planner call at budget 1 is the turn advance alone.
\<close>

theorem evil_budget_witness:
  "playerOrder game0 \<noteq> [] \<and> nextHolder game0 = ''evil'' \<and>
   map_option (map_sum id evilTurnMax) (nextTurn env0 game0) = Some (Inr 100) \<and>
   allHeroes gameEvil \<noteq> [] \<and> 1 < evilTurnMax gameEvil \<and>
   eligibleMonsters env0 (gameEvil\<lparr>evilTurnMax := evilTurnMax gameEvil - 1\<rparr>) \<noteq> [] \<and>
   map_option (map_sum id evilTurnMax) (takeEvilTurn env0 gameEvil) = Some (Inr 99) \<and>
   evilTurnMax (gameEvil\<lparr>evilTurnMax := 1\<rparr>) \<le> 1 \<and>
   takeEvilTurn env0 (gameEvil\<lparr>evilTurnMax := 1\<rparr>) = nextTurn env0 (gameEvil\<lparr>evilTurnMax := 0\<rparr>)"
proof -
  have b: "evilTurnMax gameEvil = 100" by (simp add: gameEvil_def)
  have h: "allHeroes gameEvil \<noteq> []" using gameEvil_heroes [of 100] by (simp add: gameEvil_def)
  have h1: "allHeroes (gameEvil\<lparr>evilTurnMax := 1\<rparr>) \<noteq> []" by (rule gameEvil_heroes)
  have e: "eligibleMonsters env0 (gameEvil\<lparr>evilTurnMax := evilTurnMax gameEvil - 1\<rparr>) \<noteq> []"
    by (simp add: gameEvil_eligible)
  from evil_budget [of game0 env0] game0_turn
  have t1: "map_option (map_sum id evilTurnMax) (nextTurn env0 game0) = Some (Inr 100)" by auto
  from evil_budget [of gameEvil env0] h e b
  have t2: "map_option (map_sum id evilTurnMax) (takeEvilTurn env0 gameEvil) = Some (Inr 99)" by auto
  from evil_budget [of "gameEvil\<lparr>evilTurnMax := 1\<rparr>" env0] h1
  have t3: "takeEvilTurn env0 (gameEvil\<lparr>evilTurnMax := 1\<rparr>) = nextTurn env0 (gameEvil\<lparr>evilTurnMax := 0\<rparr>)"
    by simp
  show ?thesis using game0_turn h b e t1 t2 t3 by simp
qed

text \<open>
  The claim as written fails when the planner's own turn advance hands the turn to evil
  again. In \<open>gameSolo\<close> it is evil's turn, a hero is active, the budget is 100 and no
  monster is eligible: the planner call ends with the budget at 100, not 99.
\<close>

theorem evil_budget_reset_in_call:
  "allHeroes gameSolo \<noteq> [] \<and> whoseTurn gameSolo = ''evil'' \<and> evilTurnMax gameSolo = 100 \<and>
   map_option (map_sum id evilTurnMax) (takeEvilTurn env0 gameSolo) = Some (Inr 100) \<and>
   map_option (map_sum id whoseTurn) (takeEvilTurn env0 gameSolo) = Some (Inr ''evil'')"
proof -
  let ?g = "gameSolo\<lparr>evilTurnMax := 99\<rparr>"
  have h: "allHeroes gameSolo \<noteq> []"
    by (simp add: allHeroes_def gameSolo_def game0_def dungeon0_def heroA_def actor0_def)
  have e: "eligibleMonsters env0 ?g = []"
    by (simp add: eligibleMonsters_def env0_def gameSolo_def game0_def dungeon0_def heroA_def
        monsterB_def actor0_def Let_def)
  have b: "evilTurnMax gameSolo = 100" "whoseTurn gameSolo = ''evil''" by (simp_all add: gameSolo_def)
  have t: "takeEvilTurn env0 gameSolo = nextTurn env0 ?g"
    using h e b by (simp add: takeEvilTurn_def Let_def)
  have o: "playerOrder ?g \<noteq> []" "nextHolder ?g = ''evil''"
    by (simp_all add: nextHolder_def gameSolo_def game0_def Let_def)
  show ?thesis
    using h b by (simp add: t nextTurn_to_evil [OF o] addGameEvent_def)
qed

text \<open>
  C9 (as amended). When the planner has selected a monster, the monster has at least one
  legal move and a hero is adjacent, one action of the monster is consumed in the planner
  itself, whether or not a legal move targets the hero's cell. An attack activity at the
  hero's cell is started exactly when such a move exists; otherwise the current activity
  is left as it was. The planner runs this for the first eligible monster while a hero
  is active and the lowered budget is above 0.
\<close>

theorem planner_adjacent_hero:
  assumes "calcMoves env g monster \<noteq> []"
    and "getAdjacentHero env (g\<lparr>possibleMoves := calcMoves env g monster\<rparr>)
           (dungeonId (actorStore g monster)) monster = Some hero"
  shows
    "(let m = actorStore g monster; h = actorStore g hero; g' = planMonster env monster g in
        actions (actorStore g' monster) = actions m - 1 \<and>
        (case find (\<lambda>mv. mv_x mv = actor_x h \<and> mv_y mv = actor_y h) (calcMoves env g monster) of
           Some attackMove \<Rightarrow>
             currentActivity g' =
               Some \<lparr>act_dungeonId = dungeonId m, act_actorId = actor_id m,
                     act_startTime = now env, act_tx = actor_x h, act_ty = actor_y h\<rparr>
         | None \<Rightarrow> currentActivity g' = currentActivity g)) \<and>
     (allHeroes g0 \<noteq> [] \<and> 1 < evilTurnMax g0 \<and> g = g0\<lparr>evilTurnMax := evilTurnMax g0 - 1\<rparr> \<and>
      eligibleMonsters env g = monster # rest
        \<longrightarrow> takeEvilTurn env g0 = Some (Inr (planMonster env monster g)))"
proof -
  let ?h = "actorStore g hero"
  let ?P = "\<lambda>mv. mv_x mv = actor_x ?h \<and> mv_y mv = actor_y ?h"
  have plan: "actions (actorStore (planMonster env monster g) monster)
                = actions (actorStore g monster) - 1"
    using assms by (simp add: planMonster_def updActor_def Let_def split: option.splits)
  have none: "currentActivity (planMonster env monster g) = currentActivity g"
    if "find ?P (calcMoves env g monster) = None"
    using assms that by (simp add: planMonster_def updActor_def Let_def)
  have some: "currentActivity (planMonster env monster g) =
       Some \<lparr>act_dungeonId = dungeonId (actorStore g monster), act_actorId = actor_id (actorStore g monster),
             act_startTime = now env, act_tx = actor_x ?h, act_ty = actor_y ?h\<rparr>"
    if f: "find ?P (calcMoves env g monster) = Some mv" for mv
  proof -
    from f have "?P mv" by (auto simp: find_Some_iff)
    then show ?thesis using assms f by (simp add: planMonster_def updActor_def Let_def)
  qed
  have turn: "allHeroes g0 \<noteq> [] \<and> 1 < evilTurnMax g0 \<and> g = g0\<lparr>evilTurnMax := evilTurnMax g0 - 1\<rparr> \<and>
      eligibleMonsters env g = monster # rest
        \<longrightarrow> takeEvilTurn env g0 = Some (Inr (planMonster env monster g))"
    by (auto simp: takeEvilTurn_def Let_def)
  have first: "(let m = actorStore g monster; h = actorStore g hero; g' = planMonster env monster g in
        actions (actorStore g' monster) = actions m - 1 \<and>
        (case find (\<lambda>mv. mv_x mv = actor_x h \<and> mv_y mv = actor_y h) (calcMoves env g monster) of
           Some attackMove \<Rightarrow>
             currentActivity g' =
               Some \<lparr>act_dungeonId = dungeonId m, act_actorId = actor_id m,
                     act_startTime = now env, act_tx = actor_x h, act_ty = actor_y h\<rparr>
         | None \<Rightarrow> currentActivity g' = currentActivity g))"
    using plan none some
    by (cases "find ?P (calcMoves env g monster)") (simp_all add: Let_def)
  show ?thesis by (rule conjI [OF first turn])
qed

lemma envHit_fields:
  "calcMoves envHit = (\<lambda>g r. [mvAway, mvHit])" "getAdjacentHero envHit = (\<lambda>g did r. Some 0)"
  "now envHit = 1000"
  "calcMoves envAway = (\<lambda>g r. [mvAway])" "getAdjacentHero envAway = (\<lambda>g did r. Some 0)"
  by (simp_all add: envHit_def envAway_def env0_def)

lemma gameEvil_actors:
  "actorStore (gameEvil\<lparr>evilTurnMax := b\<rparr>) 0 = heroA"
  "actorStore (gameEvil\<lparr>evilTurnMax := b\<rparr>) (Suc 0) = monsterB"
  "actorStore (gameEvil\<lparr>evilTurnMax := b\<rparr>) 1 = monsterB"
  "currentActivity (gameEvil\<lparr>evilTurnMax := b\<rparr>) = None"
  "actorStore gameEvil 0 = heroA" "actorStore gameEvil 1 = monsterB"
  "actorStore gameEvil (Suc 0) = monsterB" "currentActivity gameEvil = None"
  "evilTurnMax gameEvil = 100"
  by (simp_all add: gameEvil_def game0_def)

lemma cells:
  "actor_x heroA = 2" "actor_y heroA = 2" "actions monsterB = 1" "dungeonId monsterB = 1"
  "actor_id monsterB = 9" "mv_x mvHit = 2" "mv_y mvHit = 2" "mv_x mvAway = 2" "mv_y mvAway = 4"
  by (simp_all add: heroA_def monsterB_def actor0_def mvHit_def mvAway_def)

lemma gameEvil_eligible_adjacent:
  "eligibleMonsters envAway (gameEvil\<lparr>evilTurnMax := b\<rparr>) = [1]"
  "eligibleMonsters envHit (gameEvil\<lparr>evilTurnMax := b\<rparr>) = [1]"
  by (simp_all add: eligibleMonsters_def envHit_def envAway_def env0_def gameEvil_def game0_def
      dungeon0_def heroA_def monsterB_def actor0_def Let_def)

text \<open>
  With a legal move onto the hero's cell (2, 2) the planner starts the attack there and
  the monster's single action is spent.
\<close>

theorem planner_adjacent_hero_witness:
  "calcMoves envHit (gameEvil\<lparr>evilTurnMax := 99\<rparr>) 1 \<noteq> [] \<and>
   getAdjacentHero envHit (gameEvil\<lparr>evilTurnMax := 99, possibleMoves := [mvAway, mvHit]\<rparr>) 1 1 = Some 0 \<and>
   allHeroes gameEvil \<noteq> [] \<and> 1 < evilTurnMax gameEvil \<and>
   eligibleMonsters envHit (gameEvil\<lparr>evilTurnMax := 99\<rparr>) = [1] \<and>
   takeEvilTurn envHit gameEvil = Some (Inr (planMonster envHit 1 (gameEvil\<lparr>evilTurnMax := 99\<rparr>))) \<and>
   actions (actorStore (planMonster envHit 1 (gameEvil\<lparr>evilTurnMax := 99\<rparr>)) 1) = 0 \<and>
   currentActivity (planMonster envHit 1 (gameEvil\<lparr>evilTurnMax := 99\<rparr>))
     = Some \<lparr>act_dungeonId = 1, act_actorId = 9, act_startTime = 1000, act_tx = 2, act_ty = 2\<rparr>"
proof -
  let ?g = "gameEvil\<lparr>evilTurnMax := 99\<rparr>"
  have h1: "calcMoves envHit ?g 1 \<noteq> []" by (simp add: envHit_fields)
  have h2: "getAdjacentHero envHit (?g\<lparr>possibleMoves := calcMoves envHit ?g 1\<rparr>)
              (dungeonId (actorStore ?g 1)) 1 = Some 0" by (simp add: envHit_fields)
  have h3: "allHeroes gameEvil \<noteq> []" using gameEvil_heroes [of 100] by (simp add: gameEvil_def)
  have h4: "?g = gameEvil\<lparr>evilTurnMax := evilTurnMax gameEvil - 1\<rparr>" by (simp add: gameEvil_actors)
  have h5: "eligibleMonsters envHit ?g = 1 # []" by (simp add: gameEvil_eligible_adjacent)
  have h6: "1 < evilTurnMax gameEvil" by (simp add: gameEvil_actors)
  note inst = planner_adjacent_hero [OF h1 h2, of gameEvil "[]"]
  from inst h3 h4 h5 h6
  have turn: "takeEvilTurn envHit gameEvil = Some (Inr (planMonster envHit 1 ?g))" by blast
  from inst have plan:
    "actions (actorStore (planMonster envHit 1 ?g) 1) = 0 \<and>
     currentActivity (planMonster envHit 1 ?g)
       = Some \<lparr>act_dungeonId = 1, act_actorId = 9, act_startTime = 1000, act_tx = 2, act_ty = 2\<rparr>"
    by (simp add: Let_def envHit_fields gameEvil_actors cells)
  show ?thesis
    using h1 h3 h5 h6 turn plan by (simp add: envHit_fields)
qed

text \<open>
  The claim as written fails when the hero is adjacent and no legal move targets its
  cell: with the only legal move leading to (2, 4) and the hero at (2, 2) the planner
  starts no activity, yet the monster's action goes from 1 to 0.
\<close>

theorem planner_consumes_action_without_attack:
  "getAdjacentHero envAway (gameEvil\<lparr>evilTurnMax := 99, possibleMoves := [mvAway]\<rparr>) 1 1 = Some 0 \<and>
   calcMoves envAway (gameEvil\<lparr>evilTurnMax := 99\<rparr>) 1 = [mvAway] \<and>
   (mv_x mvAway, mv_y mvAway) \<noteq> (actor_x (actorStore gameEvil 0), actor_y (actorStore gameEvil 0)) \<and>
   takeEvilTurn envAway gameEvil = Some (Inr (planMonster envAway 1 (gameEvil\<lparr>evilTurnMax := 99\<rparr>))) \<and>
   actions (actorStore gameEvil 1) = 1 \<and>
   actions (actorStore (planMonster envAway 1 (gameEvil\<lparr>evilTurnMax := 99\<rparr>)) 1) = 0 \<and>
   currentActivity (planMonster envAway 1 (gameEvil\<lparr>evilTurnMax := 99\<rparr>)) = None"
proof -
  let ?g = "gameEvil\<lparr>evilTurnMax := 99\<rparr>"
  have h3: "allHeroes gameEvil \<noteq> []" using gameEvil_heroes [of 100] by (simp add: gameEvil_def)
  have t: "takeEvilTurn envAway gameEvil = Some (Inr (planMonster envAway 1 ?g))"
    using h3 by (simp add: takeEvilTurn_def Let_def gameEvil_actors gameEvil_eligible_adjacent)
  have p: "actions (actorStore (planMonster envAway 1 ?g) 1) = 0"
          "currentActivity (planMonster envAway 1 ?g) = None"
    by (simp_all add: planMonster_def updActor_def Let_def envHit_fields gameEvil_actors cells)
  show ?thesis using t p by (simp add: envHit_fields gameEvil_actors cells)
qed

section \<open>Properties of the turn order\<close>

text \<open>
  The turn order is well formed when no entry occurs twice and the last entry is
  \<open>evil\<close>. \<open>nextTurn\<close> never writes it (see \<open>nextTurn_budget\<close>).
\<close>

lemma placeHero_order: "placeHero env g d p ty n = Inr g' \<Longrightarrow> playerOrder g' = playerOrder g"
  by (auto simp: placeHero_def pushActor_def updDungeon_def Let_def
      split: option.splits if_splits prod.splits)

lemma joinGame_order:
  assumes "joinGame env g p ty n = Inr g'"
  shows "playerOrder g' =
     (if p \<in> set (playerOrder g) then playerOrder g
      else if playerOrder g = [] then [p]
      else butlast (playerOrder g) @ [p, last (playerOrder g)])"
proof -
  from assms obtain g1 where g1: "placeHero env g (last (dungeons g)) p ty n = Inr g1"
    and g': "g' = (let game2 = (if p \<in> set (playerOrder g1) then g1
                           else g1\<lparr>playerOrder :=
                                  splice (int (length (playerOrder g1)) - 1) 0 [p] (playerOrder g1)\<rparr>)
              in (case map_of (playerInfo game2) (whoseTurn game2) of
                        None \<Rightarrow> game2
                      | Some whoseMove \<Rightarrow>
                          if pi_actorId whoseMove \<noteq> 0 then
                            (case getActorById game2 (dg_id (dungeonStore game2 (last (dungeons g))))
                                    (pi_actorId whoseMove) of
                               None \<Rightarrow> game2
                             | Some actor \<Rightarrow> game2\<lparr>possibleMoves := calcMoves env game2 actor\<rparr>)
                          else game2))"
    by (auto simp: joinGame_def Let_def split: if_splits sum.splits)
  have o: "playerOrder g1 = playerOrder g" by (rule placeHero_order [OF g1])
  have "playerOrder g' = (if p \<in> set (playerOrder g1) then playerOrder g1
          else splice (int (length (playerOrder g1)) - 1) 0 [p] (playerOrder g1))"
    unfolding g' by (simp add: Let_def split: option.splits)
  then show ?thesis
    unfolding o using splice_insert_before_last [of "playerOrder g" p]
    by (auto simp: splice_def)
qed

lemma clearType_member:
  "p \<in> set (playerOrder g) \<Longrightarrow> playerOrder (clearType g p) = remove1 p (playerOrder g)"
  by (simp add: clearType_def splice_indexOf_in)

lemma joinGame_keeps_evil_last:
  assumes "joinGame env g p ty n = Inr g'" and "distinct (playerOrder g)"
    and "playerOrder g \<noteq> []" and "last (playerOrder g) = ''evil''"
  shows "distinct (playerOrder g') \<and> playerOrder g' \<noteq> [] \<and> last (playerOrder g') = ''evil'' \<and>
         set (playerOrder g') = insert p (set (playerOrder g))"
proof (cases "p \<in> set (playerOrder g)")
  case True
  with assms joinGame_order [OF assms(1)] show ?thesis by auto
next
  case False
  obtain ys where ys: "playerOrder g = ys @ [''evil'']"
    using assms(3,4) by (cases "playerOrder g" rule: rev_cases) auto
  from False joinGame_order [OF assms(1)] assms(3)
  have "playerOrder g' = ys @ [p, ''evil'']" by (simp add: ys)
  with False assms(2) ys show ?thesis by auto
qed

lemma clearType_keeps_evil_last:
  assumes "p \<in> set (playerOrder g)" and "p \<noteq> ''evil''" and "distinct (playerOrder g)"
    and "last (playerOrder g) = ''evil''"
  shows "distinct (playerOrder (clearType g p)) \<and> last (playerOrder (clearType g p)) = ''evil'' \<and>
         set (playerOrder (clearType g p)) = set (playerOrder g) - {p}"
proof -
  obtain ys where ys: "playerOrder g = ys @ [''evil'']"
    using assms(1,4) by (cases "playerOrder g" rule: rev_cases) auto
  with assms have "p \<in> set ys" by auto
  then have "remove1 p (ys @ [''evil'']) = remove1 p ys @ [''evil'']" by (simp add: remove1_append)
  with assms ys show ?thesis by (auto simp: clearType_member)
qed

text \<open>
  C6 fails on the code. \<open>clearType\<close> called by a player that is not in the turn order
  (never joined, or the command delivered a second time) removes the last entry,
  \<open>evil\<close>: \<open>indexOf\<close> gives -1 and \<open>splice(-1, 1)\<close> cuts the tail.
\<close>

theorem clearType_removes_evil:
  "playerOrder game0 = [''p1'', ''evil''] \<and>
   playerOrder (clearType game0 ''p2'') = [''p1''] \<and>
   playerOrder (clearType game0 ''p1'') = [''evil''] \<and>
   playerOrder (clearType (clearType game0 ''p1'') ''p1'') = []"
  by (simp add: clearType_def splice_def game0_def Let_def)

section \<open>Properties of the descent\<close>


















section \<open>Preservation of the resource bounds\<close>












lemma set_splice_remove: "set (splice i 1 [] xs) \<subseteq> set xs"
  unfolding splice_def Let_def
  by (auto dest: in_set_takeD in_set_dropD)


lemma kill_dungeons: "dungeons (kill env g d target ed) = dungeons g"
  by (simp add: kill_def killRemove_def addGameEvent_def updActor_def updDungeon_def Let_def
      split: option.splits prod.splits)

lemma killRemove_stores:
  "actorStore (killRemove g d target ed) = (actorStore g)(target := (actorStore g target)\<lparr>health := 0\<rparr>)"
  "dungeonStore (killRemove g d target ed) =
     (dungeonStore g)(d := (dungeonStore g d)\<lparr>dg_actors :=
        splice (indexOf (dg_actors (dungeonStore g d)) target) 1 [] (dg_actors (dungeonStore g d))\<rparr>)"
  by (simp_all add: killRemove_def addGameEvent_def updActor_def updDungeon_def Let_def)

lemma boundsOK_dead: "boundsOK a \<Longrightarrow> boundsOK (a\<lparr>health := 0\<rparr>)"
  by (simp add: boundsOK_def)

lemma keeps_kill: "keepsBounds g (kill env g d target ed)"
  unfolding keepsBounds_def kill_dungeons kill_stores killRemove_stores
  using set_splice_remove [of "indexOf (dg_actors (dungeonStore g d)) target" "dg_actors (dungeonStore g d)"]
  by (auto simp: boundsOK_dead)
































section \<open>The magic attack of the small game\<close>








end
